theory Spec2Isabelle
  imports Main "HOL-Library.Word"
begin

unbundle bit_operations_syntax

section \<open>DS1307 driver: data model (DS1307.h)\<close>

text \<open>
  The enumerations of \<^verbatim>\<open>DS1307.h\<close> are kept as the integers the C code stores:
  the driver casts raw register bits to them (\<^verbatim>\<open>ds1307_get_hour\<close>) and passes them to
  \<^verbatim>\<open>DecToBcd\<close>, so an enumeration is a machine integer here, with one constant per
  enumerator. The width of an enumeration is the compiler's choice; 32 bits are taken,
  and nothing below depends on the width.
\<close>

type_synonym c_enum = "32 word"

text \<open>\<^verbatim>\<open>ds1307_adr_t\<close>\<close>

definition DS1307_7_BIT_ADR :: c_enum where "DS1307_7_BIT_ADR = 0x68"
definition DS1307_WRITE_ADR :: c_enum where "DS1307_WRITE_ADR = 0xD0"
definition DS1307_READ_ADR :: c_enum where "DS1307_READ_ADR = 0xD1"

text \<open>\<^verbatim>\<open>ds1307_reg_adr_t\<close>\<close>

definition DS1307_SEC_REG_ADR :: c_enum where "DS1307_SEC_REG_ADR = 0"
definition DS1307_MIN_REG_ADR :: c_enum where "DS1307_MIN_REG_ADR = 1"
definition DS1307_HOUR_REG_ADR :: c_enum where "DS1307_HOUR_REG_ADR = 2"
definition DS1307_DAY_REG_ADR :: c_enum where "DS1307_DAY_REG_ADR = 3"
definition DS1307_DATE_REG_ADR :: c_enum where "DS1307_DATE_REG_ADR = 4"
definition DS1307_MONTH_REG_ADR :: c_enum where "DS1307_MONTH_REG_ADR = 5"
definition DS1307_YEAR_REG_ADR :: c_enum where "DS1307_YEAR_REG_ADR = 6"
definition DS1307_CONT_REG_ADR :: c_enum where "DS1307_CONT_REG_ADR = 7"

text \<open>\<^verbatim>\<open>ds1307_clock_t\<close>\<close>

definition DS1307_CLOCK_ENABLE :: c_enum where "DS1307_CLOCK_ENABLE = 0"
definition DS1307_CLOCK_DISABLE :: c_enum where "DS1307_CLOCK_DISABLE = 1"

text \<open>\<^verbatim>\<open>ds1307_timeperiod_t\<close>\<close>

definition DS1307_AM :: c_enum where "DS1307_AM = 0"
definition DS1307_PM :: c_enum where "DS1307_PM = 1"
definition DS1307_NONE :: c_enum where "DS1307_NONE = 2"

text \<open>\<^verbatim>\<open>ds_1307_hour_format_t\<close>\<close>

definition DS1307_HOUR_FORMAT_24 :: c_enum where "DS1307_HOUR_FORMAT_24 = 0"
definition DS1307_HOUR_FORMAT_12 :: c_enum where "DS1307_HOUR_FORMAT_12 = 1"

lemmas ds1307_enum_defs =
  DS1307_7_BIT_ADR_def DS1307_WRITE_ADR_def DS1307_READ_ADR_def
  DS1307_SEC_REG_ADR_def DS1307_MIN_REG_ADR_def DS1307_HOUR_REG_ADR_def
  DS1307_DAY_REG_ADR_def DS1307_DATE_REG_ADR_def DS1307_MONTH_REG_ADR_def
  DS1307_YEAR_REG_ADR_def DS1307_CONT_REG_ADR_def
  DS1307_CLOCK_ENABLE_def DS1307_CLOCK_DISABLE_def
  DS1307_AM_def DS1307_PM_def DS1307_NONE_def
  DS1307_HOUR_FORMAT_24_def DS1307_HOUR_FORMAT_12_def

text \<open>
  \<^verbatim>\<open>ds1307_user_func_t\<close>: the two I2C functions the application supplies. The type
  \<open>'b\<close> is the state of whatever is behind them (the bus and the chip). Every call the
  driver makes passes a one-byte buffer and the size 1, so the buffer is one byte here:
  the send function gets the byte, the read function gets the byte the buffer holds
  before the call and returns the byte it holds afterwards.
\<close>

record 'b ds1307_user_func_t =
  ds1307_i2c_send_ptr :: "c_enum \<Rightarrow> c_enum \<Rightarrow> 8 word \<Rightarrow> 16 word \<Rightarrow> 'b \<Rightarrow> 'b"
  ds1307_i2c_read_ptr :: "c_enum \<Rightarrow> c_enum \<Rightarrow> 8 word \<Rightarrow> 16 word \<Rightarrow> 'b \<Rightarrow> 8 word \<times> 'b"

text \<open>\<^verbatim>\<open>ds1307_context_t\<close> (its field \<^verbatim>\<open>functions\<close> is \<open>ds1307_functions\<close> here).\<close>

record 'b ds1307_context_t =
  ds1307_functions :: "'b ds1307_user_func_t"
  day :: c_enum
  month :: c_enum
  year :: "16 word"
  hour :: "8 word"
  minute :: "8 word"
  second :: "8 word"
  date :: "8 word"
  time_period :: c_enum
  time_format :: c_enum
  century :: "16 word"

text \<open>
  A call through one of the two function pointers, as seen on the bus: address,
  register, the byte sent (for a send) and the size.
\<close>

datatype i2c_call =
  I2C_send c_enum c_enum "8 word" "16 word"
| I2C_read c_enum c_enum "16 word"

text \<open>
  The state the driver runs in: the context \<open>usr\<close> the functions get a pointer to,
  the state \<open>bus\<close> behind the transport, and the calls made so far, oldest first.
  The two I2C functions are not passed the context, so a call through them changes
  \<open>bus\<close> and, for a read, the one-byte buffer only.
\<close>

record 'b machine =
  usr :: "'b ds1307_context_t"
  bus :: 'b
  calls :: "i2c_call list"

section \<open>BCD conversion\<close>

text \<open>
  \<^verbatim>\<open>return (((value / 10) << 4) + (value % 10));\<close> The operands are promoted to
  \<^verbatim>\<open>int\<close>, where the sum (at most 409) cannot overflow; the return converts to
  \<^verbatim>\<open>uint8_t\<close>, keeping the low eight bits.
\<close>

definition DecToBcd :: "8 word \<Rightarrow> 8 word" where
  "DecToBcd v = word_of_int (push_bit 4 (uint v div 10) + uint v mod 10)"

text \<open>\<^verbatim>\<open>return ((((value & 0xf0) >> 4) * 10) + (value & 0x0f));\<close> (at most 165).\<close>

definition BcdToDec :: "8 word \<Rightarrow> 8 word" where
  "BcdToDec v = word_of_int (drop_bit 4 (uint v AND 0xf0) * 10 + (uint v AND 0x0f))"

section \<open>Transport helpers\<close>

text \<open>
  \<^verbatim>\<open>ds1307_i2c_send\<close> and \<^verbatim>\<open>ds1307_i2c_read\<close> call the function pointer of the context;
  here they also append the call to the list. A read returns the byte the buffer holds
  after the call.
\<close>

definition ds1307_i2c_send ::
  "'b machine \<Rightarrow> c_enum \<Rightarrow> c_enum \<Rightarrow> 8 word \<Rightarrow> 16 word \<Rightarrow> 'b machine" where
  "ds1307_i2c_send m address reg_adr ds1307_data sz =
     m\<lparr>bus := ds1307_i2c_send_ptr (ds1307_functions (usr m))
                address reg_adr ds1307_data sz (bus m),
       calls := calls m @ [I2C_send address reg_adr ds1307_data sz]\<rparr>"

definition ds1307_i2c_read ::
  "'b machine \<Rightarrow> c_enum \<Rightarrow> c_enum \<Rightarrow> 8 word \<Rightarrow> 16 word \<Rightarrow> 8 word \<times> 'b machine" where
  "ds1307_i2c_read m address reg_adr ds1307_data sz =
     (let (v, b) = ds1307_i2c_read_ptr (ds1307_functions (usr m))
                     address reg_adr ds1307_data sz (bus m)
      in (v, m\<lparr>bus := b, calls := calls m @ [I2C_read address reg_adr sz]\<rparr>))"

section \<open>Single-register accessors\<close>

text \<open>
  Each function takes the state and returns the state after the call. A local
  \<^verbatim>\<open>uint8_t\<close> that a read fills starts as 0, as in the source. Compound
  assignments on a \<^verbatim>\<open>uint8_t\<close> (\<^verbatim>\<open>-=\<close>, \<^verbatim>\<open>+=\<close>, \<^verbatim>\<open>|=\<close>, \<^verbatim>\<open>&=\<close>) compute in
  \<^verbatim>\<open>int\<close> or \<^verbatim>\<open>unsigned\<close> and keep the low eight bits, which is the arithmetic of
  \<open>8 word\<close>.
\<close>

definition ds1307_set_minute :: "'b machine \<Rightarrow> 8 word \<Rightarrow> 'b machine" where
  "ds1307_set_minute m minute_arg =
     ds1307_i2c_send m DS1307_WRITE_ADR DS1307_MIN_REG_ADR (DecToBcd minute_arg) 1"

definition ds1307_get_minute :: "'b machine \<Rightarrow> 'b machine" where
  "ds1307_get_minute m =
     (case ds1307_i2c_read m DS1307_READ_ADR DS1307_MIN_REG_ADR 0 1 of
        (v, m1) \<Rightarrow> m1\<lparr>usr := (usr m1)\<lparr>minute := BcdToDec v\<rparr>\<rparr>)"

definition ds1307_set_second :: "'b machine \<Rightarrow> 8 word \<Rightarrow> 'b machine" where
  "ds1307_set_second m second_arg =
     ds1307_i2c_send m DS1307_WRITE_ADR DS1307_SEC_REG_ADR (DecToBcd second_arg) 1"

definition ds1307_get_second :: "'b machine \<Rightarrow> 'b machine" where
  "ds1307_get_second m =
     (case ds1307_i2c_read m DS1307_READ_ADR DS1307_SEC_REG_ADR 0 1 of
        (v, m1) \<Rightarrow>
          m1\<lparr>usr := (usr m1)\<lparr>second := BcdToDec (v AND NOT (push_bit 7 1))\<rparr>\<rparr>)"

definition ds1307_set_date :: "'b machine \<Rightarrow> 8 word \<Rightarrow> 'b machine" where
  "ds1307_set_date m date_arg =
     ds1307_i2c_send m DS1307_WRITE_ADR DS1307_DATE_REG_ADR (DecToBcd date_arg) 1"

text \<open>\<^verbatim>\<open>usr->date = (ds1307_day_t) BcdToDec(date);\<close> the field is a \<^verbatim>\<open>uint8_t\<close>.\<close>

definition ds1307_get_date :: "'b machine \<Rightarrow> 'b machine" where
  "ds1307_get_date m =
     (case ds1307_i2c_read m DS1307_READ_ADR DS1307_DATE_REG_ADR 0 1 of
        (v, m1) \<Rightarrow> m1\<lparr>usr := (usr m1)\<lparr>date := ucast (ucast (BcdToDec v) :: c_enum)\<rparr>\<rparr>)"

text \<open>The enumeration argument is converted to the \<^verbatim>\<open>uint8_t\<close> parameter of \<^verbatim>\<open>DecToBcd\<close>.\<close>

definition ds1307_set_day :: "'b machine \<Rightarrow> c_enum \<Rightarrow> 'b machine" where
  "ds1307_set_day m day_arg =
     ds1307_i2c_send m DS1307_WRITE_ADR DS1307_DAY_REG_ADR (DecToBcd (ucast day_arg)) 1"

definition ds1307_get_day :: "'b machine \<Rightarrow> 'b machine" where
  "ds1307_get_day m =
     (case ds1307_i2c_read m DS1307_READ_ADR DS1307_DAY_REG_ADR 0 1 of
        (v, m1) \<Rightarrow> m1\<lparr>usr := (usr m1)\<lparr>day := ucast (BcdToDec v)\<rparr>\<rparr>)"

definition ds1307_set_month :: "'b machine \<Rightarrow> c_enum \<Rightarrow> 'b machine" where
  "ds1307_set_month m month_arg =
     ds1307_i2c_send m DS1307_WRITE_ADR DS1307_MONTH_REG_ADR (DecToBcd (ucast month_arg)) 1"

definition ds1307_get_month :: "'b machine \<Rightarrow> 'b machine" where
  "ds1307_get_month m =
     (case ds1307_i2c_read m DS1307_READ_ADR DS1307_MONTH_REG_ADR 0 1 of
        (v, m1) \<Rightarrow> m1\<lparr>usr := (usr m1)\<lparr>month := ucast (BcdToDec v)\<rparr>\<rparr>)"

section \<open>Year and century\<close>

text \<open>
  \<^verbatim>\<open>uint8_t year_8bit = (uint8_t) (year % 100);\<close>
  \<^verbatim>\<open>usr->century = year - ((uint16_t) year_8bit);\<close>
\<close>

definition ds1307_set_year :: "'b machine \<Rightarrow> 16 word \<Rightarrow> 'b machine" where
  "ds1307_set_year m year_arg =
     (let year_8bit = (ucast (year_arg mod 100) :: 8 word);
          m1 = m\<lparr>usr := (usr m)\<lparr>century := year_arg - ucast year_8bit\<rparr>\<rparr>
      in ds1307_i2c_send m1 DS1307_WRITE_ADR DS1307_YEAR_REG_ADR (DecToBcd year_8bit) 1)"

text \<open>\<^verbatim>\<open>usr->year = usr->century + ((uint16_t) BcdToDec(year));\<close>\<close>

definition ds1307_get_year :: "'b machine \<Rightarrow> 'b machine" where
  "ds1307_get_year m =
     (case ds1307_i2c_read m DS1307_READ_ADR DS1307_YEAR_REG_ADR 0 1 of
        (v, m1) \<Rightarrow>
          m1\<lparr>usr := (usr m1)\<lparr>year := century (usr m1) + ucast (BcdToDec v)\<rparr>\<rparr>)"

section \<open>Oscillator control\<close>

text \<open>
  \<^verbatim>\<open>uint8_t ch = 0;\<close> then \<^verbatim>\<open>ch |= (1U << 7)\<close> for \<^verbatim>\<open>DS1307_CLOCK_DISABLE\<close> and
  \<^verbatim>\<open>ch &= ~(1U << 7)\<close> for any other argument.
\<close>

definition ds1307_set_ch :: "'b machine \<Rightarrow> c_enum \<Rightarrow> 'b machine" where
  "ds1307_set_ch m clock =
     (if clock = DS1307_CLOCK_DISABLE
      then ds1307_i2c_send m DS1307_WRITE_ADR DS1307_SEC_REG_ADR (0 OR push_bit 7 1) 1
      else ds1307_i2c_send m DS1307_WRITE_ADR DS1307_SEC_REG_ADR (0 AND NOT (push_bit 7 1)) 1)"

section \<open>Hour and hour format\<close>

text \<open>The byte \<^verbatim>\<open>ds1307_set_hour\<close> sends in 12-hour mode, before bit 6 is set.\<close>

definition set_hour_12 :: "8 word \<Rightarrow> 8 word" where
  "set_hour_12 hour_arg =
     (if hour_arg > 11 then
        (let h = hour_arg - 12 in
         if h = 0 then DecToBcd 12 OR push_bit 5 1
         else if h = 12 then DecToBcd h AND NOT (push_bit 5 1)
         else DecToBcd h OR push_bit 5 1)
      else if hour_arg = 0 then hour_arg + 12
      else DecToBcd hour_arg AND NOT (push_bit 5 1))"

definition ds1307_set_hour :: "'b machine \<Rightarrow> 8 word \<Rightarrow> 'b machine" where
  "ds1307_set_hour m hour_arg =
     (if time_format (usr m) = DS1307_HOUR_FORMAT_12
      then ds1307_i2c_send m DS1307_WRITE_ADR DS1307_HOUR_REG_ADR
             (set_hour_12 hour_arg OR push_bit 6 1) 1
      else ds1307_i2c_send m DS1307_WRITE_ADR DS1307_HOUR_REG_ADR (DecToBcd hour_arg) 1)"

text \<open>
  \<^verbatim>\<open>usr->time_format = (ds_1307_hour_format_t) ((hour & 0x40) >> 6);\<close>
  \<^verbatim>\<open>usr->time_period = ((hour & 0x20) >> 5);\<close>
\<close>

definition ds1307_get_hour :: "'b machine \<Rightarrow> 'b machine" where
  "ds1307_get_hour m =
     (case ds1307_i2c_read m DS1307_READ_ADR DS1307_HOUR_REG_ADR 0 1 of
        (v, m1) \<Rightarrow>
          (let fmt = (ucast (drop_bit 6 (v AND 0x40)) :: c_enum);
               h = v AND NOT (push_bit 6 1)
           in if fmt = DS1307_HOUR_FORMAT_12
              then m1\<lparr>usr := (usr m1)\<lparr>time_format := fmt,
                         time_period := ucast (drop_bit 5 (h AND 0x20)),
                         hour := BcdToDec (h AND NOT (push_bit 5 1))\<rparr>\<rparr>
              else m1\<lparr>usr := (usr m1)\<lparr>time_format := fmt,
                         time_period := DS1307_NONE,
                         hour := BcdToDec h\<rparr>\<rparr>))"

text \<open>The \<^verbatim>\<open>switch (format)\<close> of \<^verbatim>\<open>ds1307_set_time_format\<close>, on the context.\<close>

definition switch_format :: "'b ds1307_context_t \<Rightarrow> c_enum \<Rightarrow> 'b ds1307_context_t" where
  "switch_format u format =
     (if format = DS1307_HOUR_FORMAT_12 then u\<lparr>time_format := DS1307_HOUR_FORMAT_12\<rparr>
      else if format = DS1307_HOUR_FORMAT_24 then
        (let u1 = u\<lparr>time_format := DS1307_HOUR_FORMAT_24\<rparr> in
         if time_period u1 = DS1307_PM
         then (if hour u1 \<noteq> 12 then u1\<lparr>hour := hour u1 + 12\<rparr> else u1)
         else (if hour u1 = 12 then u1\<lparr>hour := 0\<rparr> else u1))
      else u)"

definition ds1307_set_time_format :: "'b machine \<Rightarrow> c_enum \<Rightarrow> 'b machine" where
  "ds1307_set_time_format m format =
     (let m1 = ds1307_get_hour m in
      if time_format (usr m1) \<noteq> format then
        (let m2 = ds1307_set_ch m1 DS1307_CLOCK_DISABLE;
             m3 = m2\<lparr>usr := switch_format (usr m2) format\<rparr>;
             m4 = ds1307_set_year m3 (year (usr m3));
             m5 = ds1307_set_month m4 (month (usr m4));
             m6 = ds1307_set_date m5 (date (usr m5));
             m7 = ds1307_set_day m6 (day (usr m6));
             m8 = ds1307_set_hour m7 (hour (usr m7));
             m9 = ds1307_set_minute m8 (minute (usr m8))
         in ds1307_set_second m9 (second (usr m9)))
      else m1)"

section \<open>Bulk read\<close>

definition DS1307_read_date_time :: "'b machine \<Rightarrow> 'b machine" where
  "DS1307_read_date_time m =
     ds1307_get_second (ds1307_get_minute (ds1307_get_hour (ds1307_get_day
       (ds1307_get_date (ds1307_get_month (ds1307_get_year m))))))"

section \<open>The driver's interface and a register-file transport\<close>

text \<open>The functions \<^verbatim>\<open>DS1307.h\<close> exports, as operations with their arguments.\<close>

datatype ds1307_op =
  Set_minute "8 word" | Get_minute
| Set_second "8 word" | Get_second
| Set_hour "8 word" | Get_hour
| Set_time_format c_enum
| Set_day c_enum | Get_day
| Set_date "8 word" | Get_date
| Set_month c_enum | Get_month
| Set_year "16 word" | Get_year
| Read_date_time
| Set_ch c_enum

fun call_op :: "ds1307_op \<Rightarrow> 'b machine \<Rightarrow> 'b machine" where
  "call_op (Set_minute v) m = ds1307_set_minute m v"
| "call_op Get_minute m = ds1307_get_minute m"
| "call_op (Set_second v) m = ds1307_set_second m v"
| "call_op Get_second m = ds1307_get_second m"
| "call_op (Set_hour v) m = ds1307_set_hour m v"
| "call_op Get_hour m = ds1307_get_hour m"
| "call_op (Set_time_format f) m = ds1307_set_time_format m f"
| "call_op (Set_day d) m = ds1307_set_day m d"
| "call_op Get_day m = ds1307_get_day m"
| "call_op (Set_date v) m = ds1307_set_date m v"
| "call_op Get_date m = ds1307_get_date m"
| "call_op (Set_month v) m = ds1307_set_month m v"
| "call_op Get_month m = ds1307_get_month m"
| "call_op (Set_year y) m = ds1307_set_year m y"
| "call_op Get_year m = ds1307_get_year m"
| "call_op Read_date_time m = DS1307_read_date_time m"
| "call_op (Set_ch c) m = ds1307_set_ch m c"

text \<open>A program of driver calls, run from left to right.\<close>

fun call_ops :: "ds1307_op list \<Rightarrow> 'b machine \<Rightarrow> 'b machine" where
  "call_ops [] m = m"
| "call_ops (x # xs) m = call_ops xs (call_op x m)"

text \<open>
  A transport in front of a register file: a send stores the byte at the register
  address, a read returns the byte last stored there. The state behind the transport is
  the register file.
\<close>

type_synonym regfile = "c_enum \<Rightarrow> 8 word"

definition echo_send :: "c_enum \<Rightarrow> c_enum \<Rightarrow> 8 word \<Rightarrow> 16 word \<Rightarrow> regfile \<Rightarrow> regfile" where
  "echo_send address reg_adr b sz rf = rf(reg_adr := b)"

definition echo_read ::
  "c_enum \<Rightarrow> c_enum \<Rightarrow> 8 word \<Rightarrow> 16 word \<Rightarrow> regfile \<Rightarrow> 8 word \<times> regfile" where
  "echo_read address reg_adr buf sz rf = (rf reg_adr, rf)"

definition echo_functions :: "regfile ds1307_user_func_t" where
  "echo_functions = \<lparr>ds1307_i2c_send_ptr = echo_send, ds1307_i2c_read_ptr = echo_read\<rparr>"

text \<open>A context whose transport is the register-file transport.\<close>

definition echo_bound :: "regfile machine \<Rightarrow> bool" where
  "echo_bound m = (ds1307_functions (usr m) = echo_functions)"

text \<open>The all-zero context bound to the register-file transport, on an all-zero chip.\<close>

definition zero_machine :: "regfile machine" where
  "zero_machine =
     \<lparr>usr = \<lparr>ds1307_functions = echo_functions, day = 0, month = 0, year = 0, hour = 0,
             minute = 0, second = 0, date = 0, time_period = 0, time_format = 0,
             century = 0\<rparr>,
      bus = (\<lambda>r. 0), calls = []\<rparr>"

section \<open>Notions used in the statements\<close>

text \<open>The byte the transport returns when the hour register is read in state \<open>m\<close>.\<close>

definition hour_byte :: "'b machine \<Rightarrow> 8 word" where
  "hour_byte m =
     fst (ds1307_i2c_read_ptr (ds1307_functions (usr m))
            DS1307_READ_ADR DS1307_HOUR_REG_ADR 0 1 (bus m))"

text \<open>
  The ranges \<^verbatim>\<open>DS1307.h\<close> documents for the context: \<^verbatim>\<open>hour\<close> is "0-23 for 24H format,
  1-12 for 12H format" and \<^verbatim>\<open>time_period\<close> is "AM, PM, or NONE for 24H mode".
\<close>

definition context_inv :: "'b ds1307_context_t \<Rightarrow> bool" where
  "context_inv u =
     (if time_format u = DS1307_HOUR_FORMAT_24 then time_period u = DS1307_NONE
      else if time_format u = DS1307_HOUR_FORMAT_12 then
        1 \<le> hour u \<and> hour u \<le> 12 \<and>
        (time_period u = DS1307_AM \<or> time_period u = DS1307_PM)
      else True)"

text \<open>The all-zero machine with the hour register of the chip holding \<open>b\<close>.\<close>

definition chip_hour :: "8 word \<Rightarrow> regfile machine" where
  "chip_hour b = zero_machine\<lparr>bus := (bus zero_machine)(DS1307_HOUR_REG_ADR := b)\<rparr>"

section \<open>Bytes, bits and BCD\<close>

lemma word_below_cases:
  assumes "unat (v :: 'a::len word) < n" and "\<forall>k \<in> set [0..<n]. P (of_nat k)"
  shows "P v"
proof -
  from assms(1) have "unat v \<in> set [0..<n]" by simp
  with assms(2) have "P (of_nat (unat v))" by blast
  then show ?thesis by simp
qed

lemma mask_0x40: "(0x40 :: 8 word) = push_bit 6 1"
  by simp

lemma mask_0x20: "(0x20 :: 8 word) = push_bit 5 1"
  by simp

lemma hour_format_bit:
  "(ucast (drop_bit 6 (v AND 0x40 :: 8 word)) :: 32 word) = (if bit v 6 then 1 else 0)"
  unfolding mask_0x40
  by (rule bit_word_eqI) (auto simp add: bit_simps intro!: Nat.gr0I)

lemma hour_period_bit:
  "(ucast (drop_bit 5 ((v AND NOT (push_bit 6 1)) AND 0x20 :: 8 word)) :: 32 word) =
     (if bit v 5 then 1 else 0)"
  unfolding mask_0x20
  by (rule bit_word_eqI) (auto simp add: bit_simps intro!: Nat.gr0I)

lemma bcd_roundtrip: "unat v \<le> 99 \<Longrightarrow> BcdToDec (DecToBcd v) = v"
  by (rule word_below_cases [where n = 100])
     (simp_all add: upt_rec DecToBcd_def BcdToDec_def)

lemma bcd_seconds_bit7: "unat v \<le> 59 \<Longrightarrow> \<not> bit (DecToBcd v) 7"
  by (rule word_below_cases [where n = 60]) (simp_all add: upt_rec DecToBcd_def)

section \<open>What each call does to the context, the bus and the call list\<close>

lemma i2c_send_simps:
  "usr (ds1307_i2c_send m a r d s) = usr m"
  "calls (ds1307_i2c_send m a r d s) = calls m @ [I2C_send a r d s]"
  "bus (ds1307_i2c_send m a r d s) =
     ds1307_i2c_send_ptr (ds1307_functions (usr m)) a r d s (bus m)"
  by (simp_all add: ds1307_i2c_send_def)

lemma i2c_read_simps:
  "usr (snd (ds1307_i2c_read m a r d s)) = usr m"
  "calls (snd (ds1307_i2c_read m a r d s)) = calls m @ [I2C_read a r s]"
  "bus (snd (ds1307_i2c_read m a r d s)) =
     snd (ds1307_i2c_read_ptr (ds1307_functions (usr m)) a r d s (bus m))"
  "fst (ds1307_i2c_read m a r d s) =
     fst (ds1307_i2c_read_ptr (ds1307_functions (usr m)) a r d s (bus m))"
  by (simp_all add: ds1307_i2c_read_def case_prod_beta)

lemma get_hour_usr:
  "usr (ds1307_get_hour m) =
     (usr m)\<lparr>time_format :=
                (if bit (hour_byte m) 6 then DS1307_HOUR_FORMAT_12 else DS1307_HOUR_FORMAT_24),
             time_period :=
                (if bit (hour_byte m) 6
                 then (if bit (hour_byte m) 5 then DS1307_PM else DS1307_AM)
                 else DS1307_NONE),
             hour :=
                (if bit (hour_byte m) 6
                 then BcdToDec ((hour_byte m AND NOT (push_bit 6 1)) AND NOT (push_bit 5 1))
                 else BcdToDec (hour_byte m AND NOT (push_bit 6 1)))\<rparr>"
  unfolding ds1307_get_hour_def case_prod_beta Let_def i2c_read_simps
    hour_format_bit hour_period_bit hour_byte_def [symmetric]
  by (simp add: ds1307_enum_defs)

lemma get_hour_calls:
  "calls (ds1307_get_hour m) = calls m @ [I2C_read DS1307_READ_ADR DS1307_HOUR_REG_ADR 1]"
  unfolding ds1307_get_hour_def case_prod_beta Let_def
  by (simp add: i2c_read_simps)

lemma get_hour_bus:
  "bus (ds1307_get_hour m) =
     snd (ds1307_i2c_read_ptr (ds1307_functions (usr m))
            DS1307_READ_ADR DS1307_HOUR_REG_ADR 0 1 (bus m))"
  unfolding ds1307_get_hour_def case_prod_beta Let_def
  by (simp add: i2c_read_simps)

lemmas setter_defs =
  ds1307_set_minute_def ds1307_set_second_def ds1307_set_date_def ds1307_set_day_def
  ds1307_set_month_def

lemma setter_usr:
  "usr (ds1307_set_minute m v) = usr m"
  "usr (ds1307_set_second m v) = usr m"
  "usr (ds1307_set_date m v) = usr m"
  "usr (ds1307_set_day m e) = usr m"
  "usr (ds1307_set_month m e) = usr m"
  "usr (ds1307_set_hour m v) = usr m"
  "usr (ds1307_set_ch m e) = usr m"
  "usr (ds1307_set_year m y) =
     (usr m)\<lparr>century := y - ucast (ucast (y mod 100) :: 8 word)\<rparr>"
  by (simp_all add: setter_defs ds1307_set_hour_def ds1307_set_ch_def ds1307_set_year_def
      Let_def i2c_send_simps)

lemma setter_calls:
  "calls (ds1307_set_minute m v) =
     calls m @ [I2C_send DS1307_WRITE_ADR DS1307_MIN_REG_ADR
       (DecToBcd v) 1]"
  "calls (ds1307_set_second m v) =
     calls m @ [I2C_send DS1307_WRITE_ADR DS1307_SEC_REG_ADR
       (DecToBcd v) 1]"
  "calls (ds1307_set_date m v) =
     calls m @ [I2C_send DS1307_WRITE_ADR DS1307_DATE_REG_ADR
       (DecToBcd v) 1]"
  "calls (ds1307_set_day m e) =
     calls m @ [I2C_send DS1307_WRITE_ADR DS1307_DAY_REG_ADR
       (DecToBcd (ucast e)) 1]"
  "calls (ds1307_set_month m e) =
     calls m @ [I2C_send DS1307_WRITE_ADR DS1307_MONTH_REG_ADR
       (DecToBcd (ucast e)) 1]"
  "calls (ds1307_set_hour m v) =
     calls m @ [I2C_send DS1307_WRITE_ADR DS1307_HOUR_REG_ADR
       (if time_format (usr m) = DS1307_HOUR_FORMAT_12
        then set_hour_12 v OR push_bit 6 1 else DecToBcd v) 1]"
  "calls (ds1307_set_ch m e) =
     calls m @ [I2C_send DS1307_WRITE_ADR DS1307_SEC_REG_ADR
       (if e = DS1307_CLOCK_DISABLE then 0x80 else 0) 1]"
  "calls (ds1307_set_year m y) =
     calls m @ [I2C_send DS1307_WRITE_ADR DS1307_YEAR_REG_ADR
       (DecToBcd (ucast (y mod 100))) 1]"
  by (simp_all add: setter_defs ds1307_set_hour_def ds1307_set_ch_def ds1307_set_year_def
      Let_def i2c_send_simps)

lemma setter_bus:
  "bus (ds1307_set_minute m v) =
     ds1307_i2c_send_ptr (ds1307_functions (usr m)) DS1307_WRITE_ADR DS1307_MIN_REG_ADR
       (DecToBcd v) 1 (bus m)"
  "bus (ds1307_set_second m v) =
     ds1307_i2c_send_ptr (ds1307_functions (usr m)) DS1307_WRITE_ADR DS1307_SEC_REG_ADR
       (DecToBcd v) 1 (bus m)"
  "bus (ds1307_set_date m v) =
     ds1307_i2c_send_ptr (ds1307_functions (usr m)) DS1307_WRITE_ADR DS1307_DATE_REG_ADR
       (DecToBcd v) 1 (bus m)"
  "bus (ds1307_set_day m e) =
     ds1307_i2c_send_ptr (ds1307_functions (usr m)) DS1307_WRITE_ADR DS1307_DAY_REG_ADR
       (DecToBcd (ucast e)) 1 (bus m)"
  "bus (ds1307_set_month m e) =
     ds1307_i2c_send_ptr (ds1307_functions (usr m)) DS1307_WRITE_ADR DS1307_MONTH_REG_ADR
       (DecToBcd (ucast e)) 1 (bus m)"
  "bus (ds1307_set_hour m v) =
     ds1307_i2c_send_ptr (ds1307_functions (usr m)) DS1307_WRITE_ADR DS1307_HOUR_REG_ADR
       (if time_format (usr m) = DS1307_HOUR_FORMAT_12
        then set_hour_12 v OR push_bit 6 1 else DecToBcd v) 1 (bus m)"
  "bus (ds1307_set_ch m e) =
     ds1307_i2c_send_ptr (ds1307_functions (usr m)) DS1307_WRITE_ADR DS1307_SEC_REG_ADR
       (if e = DS1307_CLOCK_DISABLE then 0x80 else 0) 1 (bus m)"
  "bus (ds1307_set_year m y) =
     ds1307_i2c_send_ptr (ds1307_functions (usr m)) DS1307_WRITE_ADR DS1307_YEAR_REG_ADR
       (DecToBcd (ucast (y mod 100))) 1 (bus m)"
  by (simp_all add: setter_defs ds1307_set_hour_def ds1307_set_ch_def ds1307_set_year_def
      Let_def i2c_send_simps)

lemma switch_format_frame:
  "ds1307_functions (switch_format u f) = ds1307_functions u"
  "day (switch_format u f) = day u"
  "month (switch_format u f) = month u"
  "year (switch_format u f) = year u"
  "minute (switch_format u f) = minute u"
  "second (switch_format u f) = second u"
  "date (switch_format u f) = date u"
  "time_period (switch_format u f) = time_period u"
  "century (switch_format u f) = century u"
  by (simp_all add: switch_format_def Let_def)

lemma stf_same:
  "time_format (usr (ds1307_get_hour m)) = format \<Longrightarrow>
     ds1307_set_time_format m format = ds1307_get_hour m"
  by (simp add: ds1307_set_time_format_def Let_def)

lemma stf_calls:
  "time_format (usr (ds1307_get_hour m)) \<noteq> format \<Longrightarrow>
   calls (ds1307_set_time_format m format) = calls m @
     [I2C_read DS1307_READ_ADR DS1307_HOUR_REG_ADR 1,
      I2C_send DS1307_WRITE_ADR DS1307_SEC_REG_ADR 0x80 1,
      I2C_send DS1307_WRITE_ADR DS1307_YEAR_REG_ADR (DecToBcd (ucast (year (usr m) mod 100))) 1,
      I2C_send DS1307_WRITE_ADR DS1307_MONTH_REG_ADR (DecToBcd (ucast (month (usr m)))) 1,
      I2C_send DS1307_WRITE_ADR DS1307_DATE_REG_ADR (DecToBcd (date (usr m))) 1,
      I2C_send DS1307_WRITE_ADR DS1307_DAY_REG_ADR (DecToBcd (ucast (day (usr m)))) 1,
      I2C_send DS1307_WRITE_ADR DS1307_HOUR_REG_ADR
        (if time_format (switch_format (usr (ds1307_get_hour m)) format) = DS1307_HOUR_FORMAT_12
         then set_hour_12 (hour (switch_format (usr (ds1307_get_hour m)) format)) OR push_bit 6 1
         else DecToBcd (hour (switch_format (usr (ds1307_get_hour m)) format))) 1,
      I2C_send DS1307_WRITE_ADR DS1307_MIN_REG_ADR (DecToBcd (minute (usr m))) 1,
      I2C_send DS1307_WRITE_ADR DS1307_SEC_REG_ADR (DecToBcd (second (usr m))) 1]"
  by (simp add: ds1307_set_time_format_def Let_def setter_usr setter_calls switch_format_frame
      get_hour_calls get_hour_usr)

lemma stf_usr:
  "time_format (usr (ds1307_get_hour m)) \<noteq> format \<Longrightarrow>
   usr (ds1307_set_time_format m format) =
     (switch_format (usr (ds1307_get_hour m)) format)
       \<lparr>century := year (usr m) - ucast (ucast (year (usr m) mod 100) :: 8 word)\<rparr>"
  by (simp add: ds1307_set_time_format_def Let_def setter_usr switch_format_frame get_hour_usr)

subsection \<open>Hours 0 to 23 in the hour register\<close>

lemma hour_cases:
  "unat (h::8 word) \<le> 23 \<Longrightarrow>
     h \<in> {0, 1, 2, 3, 4, 5, 6, 7, 8, 9, 10, 11, 12, 13, 14, 15, 16, 17, 18, 19, 20, 21, 22, 23}"
  by (rule word_below_cases [where n = 24]) (simp_all add: upt_rec)

lemma hour24_register:
  "unat h \<le> 23 \<Longrightarrow>
     \<not> bit (DecToBcd h) 6 \<and> BcdToDec (DecToBcd h AND NOT (push_bit 6 1)) = h"
  by (drule hour_cases) (auto simp add: DecToBcd_def BcdToDec_def)

lemma hour12_register:
  "unat h \<le> 23 \<Longrightarrow>
     bit (set_hour_12 h OR push_bit 6 1) 6 \<and>
     bit (set_hour_12 h OR push_bit 6 1) 5 = (12 \<le> h) \<and>
     BcdToDec (((set_hour_12 h OR push_bit 6 1) AND NOT (push_bit 6 1)) AND NOT (push_bit 5 1)) =
       (if h = 0 then 12 else if 12 < h then h - 12 else h)"
  by (drule hour_cases) (auto simp add: set_hour_12_def DecToBcd_def BcdToDec_def)

subsection \<open>The register-file transport\<close>

lemma echo_ptrs:
  "echo_bound m \<Longrightarrow> ds1307_i2c_send_ptr (ds1307_functions (usr m)) a r d s b = b(r := d)"
  "echo_bound m \<Longrightarrow> ds1307_i2c_read_ptr (ds1307_functions (usr m)) a r d s b = (b r, b)"
  by (simp_all add: echo_bound_def echo_functions_def echo_send_def echo_read_def)

lemma echo_hour_byte: "echo_bound m \<Longrightarrow> hour_byte m = bus m DS1307_HOUR_REG_ADR"
  by (simp add: hour_byte_def echo_ptrs)

lemma echo_get_hour_bus: "echo_bound m \<Longrightarrow> bus (ds1307_get_hour m) = bus m"
  by (simp add: get_hour_bus echo_ptrs)

lemma echo_bound_get_hour: "echo_bound (ds1307_get_hour m) = echo_bound m"
  by (simp add: echo_bound_def get_hour_usr)

lemma echo_bound_stf: "echo_bound (ds1307_set_time_format m f) = echo_bound m"
  by (cases "time_format (usr (ds1307_get_hour m)) = f")
     (simp_all add: stf_same stf_usr echo_bound_def get_hour_usr switch_format_frame)

lemma stf_bus:
  "time_format (usr (ds1307_get_hour m)) \<noteq> format \<Longrightarrow>
   bus (ds1307_set_time_format m format) =
     ds1307_i2c_send_ptr (ds1307_functions (usr m)) DS1307_WRITE_ADR DS1307_SEC_REG_ADR
       (DecToBcd (second (usr m))) 1
    (ds1307_i2c_send_ptr (ds1307_functions (usr m)) DS1307_WRITE_ADR DS1307_MIN_REG_ADR
       (DecToBcd (minute (usr m))) 1
    (ds1307_i2c_send_ptr (ds1307_functions (usr m)) DS1307_WRITE_ADR DS1307_HOUR_REG_ADR
       (if time_format (switch_format (usr (ds1307_get_hour m)) format) = DS1307_HOUR_FORMAT_12
        then set_hour_12 (hour (switch_format (usr (ds1307_get_hour m)) format)) OR push_bit 6 1
        else DecToBcd (hour (switch_format (usr (ds1307_get_hour m)) format))) 1
    (ds1307_i2c_send_ptr (ds1307_functions (usr m)) DS1307_WRITE_ADR DS1307_DAY_REG_ADR
       (DecToBcd (ucast (day (usr m)))) 1
    (ds1307_i2c_send_ptr (ds1307_functions (usr m)) DS1307_WRITE_ADR DS1307_DATE_REG_ADR
       (DecToBcd (date (usr m))) 1
    (ds1307_i2c_send_ptr (ds1307_functions (usr m)) DS1307_WRITE_ADR DS1307_MONTH_REG_ADR
       (DecToBcd (ucast (month (usr m)))) 1
    (ds1307_i2c_send_ptr (ds1307_functions (usr m)) DS1307_WRITE_ADR DS1307_YEAR_REG_ADR
       (DecToBcd (ucast (year (usr m) mod 100))) 1
    (ds1307_i2c_send_ptr (ds1307_functions (usr m)) DS1307_WRITE_ADR DS1307_SEC_REG_ADR
       0x80 1 (bus (ds1307_get_hour m)))))))))"
  by (simp add: ds1307_set_time_format_def Let_def setter_usr setter_bus switch_format_frame
      get_hour_usr)

lemma stf_echo_regs:
  assumes "echo_bound m" and "time_format (usr (ds1307_get_hour m)) \<noteq> format"
  shows "bus (ds1307_set_time_format m format) DS1307_HOUR_REG_ADR =
     (if time_format (switch_format (usr (ds1307_get_hour m)) format) = DS1307_HOUR_FORMAT_12
      then set_hour_12 (hour (switch_format (usr (ds1307_get_hour m)) format)) OR push_bit 6 1
      else DecToBcd (hour (switch_format (usr (ds1307_get_hour m)) format)))"
    and "bus (ds1307_set_time_format m format) DS1307_SEC_REG_ADR = DecToBcd (second (usr m))"
  unfolding stf_bus [OF assms(2)] echo_ptrs(1) [OF assms(1)]
  by (simp_all add: ds1307_enum_defs)

subsection \<open>Year and century arithmetic\<close>

lemma year8_unat: "unat (ucast (y mod 100 :: 16 word) :: 8 word) = unat y mod 100"
proof -
  have "unat y mod 100 < 2 ^ 8"
    by (rule less_trans [of _ 100]) simp_all
  then show ?thesis
    by (simp add: unsigned_ucast_eq unat_mod_distrib take_bit_nat_eq_self)
qed

lemma year8_back: "(ucast (ucast (y mod 100 :: 16 word) :: 8 word) :: 16 word) = y mod 100"
proof -
  have "unat y mod 100 < 2 ^ 8"
    by (rule less_trans [of _ 100]) simp_all
  then have "unat (ucast (ucast (y mod 100 :: 16 word) :: 8 word) :: 16 word) =
      unat (y mod 100)"
    by (simp add: unsigned_ucast_eq unsigned_take_bit_eq unat_mod_distrib
        take_bit_nat_eq_self)
  then show ?thesis
    by (simp only: word_unat_eq_iff)
qed

lemma century_unat: "unat (y - y mod 100 :: 16 word) = unat y - unat y mod 100"
proof -
  have "y mod 100 \<le> y"
    by (simp add: word_le_nat_alt unat_mod_distrib)
  then show ?thesis
    by (simp add: unat_sub unat_mod_distrib)
qed

lemma century_multiple:
  "unat (y - ucast (ucast (y mod 100 :: 16 word) :: 8 word)) mod 100 = 0"
  unfolding year8_back century_unat
  by (simp add: minus_mod_eq_mult_div)

lemma century_plus:
  "unat (y - ucast (ucast (y mod 100 :: 16 word) :: 8 word)) + unat y mod 100 = unat y"
  unfolding year8_back century_unat
  by simp

lemma get_year_usr:
  "usr (ds1307_get_year m) =
     (usr m)\<lparr>year := century (usr m) + ucast (BcdToDec (fst (ds1307_i2c_read_ptr
        (ds1307_functions (usr m)) DS1307_READ_ADR DS1307_YEAR_REG_ADR 0 1 (bus m))))\<rparr>"
  unfolding ds1307_get_year_def case_prod_beta i2c_read_simps
  by simp

lemma get_year_calls:
  "calls (ds1307_get_year m) = calls m @ [I2C_read DS1307_READ_ADR DS1307_YEAR_REG_ADR 1]"
  unfolding ds1307_get_year_def case_prod_beta
  by (simp add: i2c_read_simps)

lemma chip_hour_simps:
  "echo_bound (chip_hour b)"
  "bus (chip_hour b) DS1307_HOUR_REG_ADR = b"
  "calls (chip_hour b) = []"
  "hour_byte (chip_hour b) = b"
  "second (usr (chip_hour b)) = 0"
  by (simp_all add: chip_hour_def zero_machine_def echo_bound_def hour_byte_def
      echo_functions_def echo_read_def)

subsection \<open>The century under every operation\<close>

lemma getter_century:
  "century (usr (ds1307_get_minute m)) = century (usr m)"
  "century (usr (ds1307_get_second m)) = century (usr m)"
  "century (usr (ds1307_get_hour m)) = century (usr m)"
  "century (usr (ds1307_get_day m)) = century (usr m)"
  "century (usr (ds1307_get_date m)) = century (usr m)"
  "century (usr (ds1307_get_month m)) = century (usr m)"
  "century (usr (ds1307_get_year m)) = century (usr m)"
  by (simp_all add: ds1307_get_minute_def ds1307_get_second_def ds1307_get_day_def
      ds1307_get_date_def ds1307_get_month_def get_year_usr get_hour_usr
      case_prod_beta i2c_read_simps)

lemma read_date_time_century:
  "century (usr (DS1307_read_date_time m)) = century (usr m)"
  by (simp add: DS1307_read_date_time_def getter_century)

lemma stf_century:
  "century (usr (ds1307_set_time_format m f)) =
     (if time_format (usr (ds1307_get_hour m)) = f then century (usr m)
      else year (usr m) - ucast (ucast (year (usr m) mod 100) :: 8 word))"
  by (simp add: stf_same stf_usr getter_century)

lemma call_op_century_frame:
  assumes "\<forall>y. x \<noteq> Set_year y" and "\<forall>f. x \<noteq> Set_time_format f"
  shows "century (usr (call_op x m)) = century (usr m)"
  using assms by (cases x) (auto simp add: getter_century read_date_time_century setter_usr)

lemma call_op_century_multiple:
  assumes "unat (century (usr m)) mod 100 = 0"
  shows "unat (century (usr (call_op x m))) mod 100 = 0"
proof (cases x)
  case (Set_year y)
  then show ?thesis
    by (simp add: setter_usr century_multiple)
next
  case (Set_time_format f)
  then show ?thesis
    using assms by (simp add: stf_century century_multiple)
qed (simp_all add: assms getter_century read_date_time_century setter_usr)

lemma call_ops_century_multiple:
  "unat (century (usr m)) mod 100 = 0 \<Longrightarrow>
     unat (century (usr (call_ops xs m))) mod 100 = 0"
proof (induction xs arbitrary: m)
  case Nil
  then show ?case by simp
next
  case (Cons x xs)
  from Cons.prems have "unat (century (usr (call_op x m))) mod 100 = 0"
    by (rule call_op_century_multiple)
  then show ?case
    by (simp add: Cons.IH)
qed

subsection \<open>Format switches on the register-file transport\<close>

lemma echo_bound_set_year: "echo_bound (ds1307_set_year m y) = echo_bound m"
  by (simp add: echo_bound_def setter_usr)

lemma stf_echo_to_12:
  assumes "echo_bound m" and "\<not> bit (bus m DS1307_HOUR_REG_ADR) 6"
  shows "time_format (usr (ds1307_set_time_format m DS1307_HOUR_FORMAT_12)) =
           DS1307_HOUR_FORMAT_12"
    and "time_period (usr (ds1307_set_time_format m DS1307_HOUR_FORMAT_12)) = DS1307_NONE"
    and "hour (usr (ds1307_set_time_format m DS1307_HOUR_FORMAT_12)) =
           BcdToDec (bus m DS1307_HOUR_REG_ADR AND NOT (push_bit 6 1))"
    and "bus (ds1307_set_time_format m DS1307_HOUR_FORMAT_12) DS1307_HOUR_REG_ADR =
           set_hour_12 (BcdToDec (bus m DS1307_HOUR_REG_ADR AND NOT (push_bit 6 1)))
             OR push_bit 6 1"
proof -
  have byte: "\<not> bit (hour_byte m) 6"
    using assms by (simp add: echo_hour_byte)
  have g: "usr (ds1307_get_hour m) =
      (usr m)\<lparr>time_format := DS1307_HOUR_FORMAT_24, time_period := DS1307_NONE,
              hour := BcdToDec (bus m DS1307_HOUR_REG_ADR AND NOT (push_bit 6 1))\<rparr>"
    using byte by (simp add: get_hour_usr echo_hour_byte [OF assms(1)])
  have ch: "time_format (usr (ds1307_get_hour m)) \<noteq> DS1307_HOUR_FORMAT_12"
    by (simp add: g ds1307_enum_defs)
  have sw: "switch_format (usr (ds1307_get_hour m)) DS1307_HOUR_FORMAT_12 =
      (usr m)\<lparr>time_format := DS1307_HOUR_FORMAT_12, time_period := DS1307_NONE,
              hour := BcdToDec (bus m DS1307_HOUR_REG_ADR AND NOT (push_bit 6 1))\<rparr>"
    by (simp add: g switch_format_def)
  show "time_format (usr (ds1307_set_time_format m DS1307_HOUR_FORMAT_12)) =
           DS1307_HOUR_FORMAT_12"
    and "time_period (usr (ds1307_set_time_format m DS1307_HOUR_FORMAT_12)) = DS1307_NONE"
    and "hour (usr (ds1307_set_time_format m DS1307_HOUR_FORMAT_12)) =
           BcdToDec (bus m DS1307_HOUR_REG_ADR AND NOT (push_bit 6 1))"
    by (simp_all add: stf_usr [OF ch] sw)
  show "bus (ds1307_set_time_format m DS1307_HOUR_FORMAT_12) DS1307_HOUR_REG_ADR =
           set_hour_12 (BcdToDec (bus m DS1307_HOUR_REG_ADR AND NOT (push_bit 6 1)))
             OR push_bit 6 1"
    by (simp add: stf_echo_regs(1) [OF assms(1) ch] sw)
qed

lemma stf_echo_to_24:
  assumes "echo_bound m" and "bit (bus m DS1307_HOUR_REG_ADR) 6"
  defines "h12 \<equiv>
    BcdToDec ((bus m DS1307_HOUR_REG_ADR AND NOT (push_bit 6 1)) AND NOT (push_bit 5 1))"
  defines "h24 \<equiv>
    (if bit (bus m DS1307_HOUR_REG_ADR) 5 then (if h12 \<noteq> 12 then h12 + 12 else h12)
     else (if h12 = 12 then 0 else h12))"
  shows "time_format (usr (ds1307_set_time_format m DS1307_HOUR_FORMAT_24)) =
           DS1307_HOUR_FORMAT_24"
    and "time_period (usr (ds1307_set_time_format m DS1307_HOUR_FORMAT_24)) =
           (if bit (bus m DS1307_HOUR_REG_ADR) 5 then DS1307_PM else DS1307_AM)"
    and "hour (usr (ds1307_set_time_format m DS1307_HOUR_FORMAT_24)) = h24"
    and "bus (ds1307_set_time_format m DS1307_HOUR_FORMAT_24) DS1307_HOUR_REG_ADR =
           DecToBcd h24"
proof -
  have byte: "bit (hour_byte m) 6"
    using assms(1,2) by (simp add: echo_hour_byte)
  have g: "usr (ds1307_get_hour m) =
      (usr m)\<lparr>time_format := DS1307_HOUR_FORMAT_12,
              time_period :=
                (if bit (bus m DS1307_HOUR_REG_ADR) 5 then DS1307_PM else DS1307_AM),
              hour := h12\<rparr>"
    using byte by (simp add: get_hour_usr echo_hour_byte [OF assms(1)] h12_def)
  have ch: "time_format (usr (ds1307_get_hour m)) \<noteq> DS1307_HOUR_FORMAT_24"
    by (simp add: g ds1307_enum_defs)
  have sw: "switch_format (usr (ds1307_get_hour m)) DS1307_HOUR_FORMAT_24 =
      (usr m)\<lparr>time_format := DS1307_HOUR_FORMAT_24,
              time_period :=
                (if bit (bus m DS1307_HOUR_REG_ADR) 5 then DS1307_PM else DS1307_AM),
              hour := h24\<rparr>"
    by (simp add: g switch_format_def h24_def ds1307_enum_defs)
  show "time_format (usr (ds1307_set_time_format m DS1307_HOUR_FORMAT_24)) =
           DS1307_HOUR_FORMAT_24"
    and "time_period (usr (ds1307_set_time_format m DS1307_HOUR_FORMAT_24)) =
           (if bit (bus m DS1307_HOUR_REG_ADR) 5 then DS1307_PM else DS1307_AM)"
    and "hour (usr (ds1307_set_time_format m DS1307_HOUR_FORMAT_24)) = h24"
    by (simp_all add: stf_usr [OF ch] sw)
  show "bus (ds1307_set_time_format m DS1307_HOUR_FORMAT_24) DS1307_HOUR_REG_ADR =
           DecToBcd h24"
    unfolding stf_echo_regs(1) [OF assms(1) ch] sw by (simp add: ds1307_enum_defs)
qed

text \<open>Converting a 12-hour reading of \<open>h\<close> back, as \<^verbatim>\<open>ds1307_set_time_format\<close> does.\<close>

lemma hour12_back:
  "unat (h :: 8 word) \<le> 23 \<Longrightarrow>
     (if 12 \<le> h
      then (if (if h = 0 then 12 else if 12 < h then h - 12 else h) \<noteq> 12
            then (if h = 0 then 12 else if 12 < h then h - 12 else h) + 12
            else (if h = 0 then 12 else if 12 < h then h - 12 else h))
      else (if (if h = 0 then 12 else if 12 < h then h - 12 else h) = 12 then 0
            else (if h = 0 then 12 else if 12 < h then h - 12 else h))) = h"
  by (drule hour_cases) auto

section \<open>The claims\<close>

subsection \<open>BCD codec\<close>

text \<open>
  Claim C4. For every \<open>v\<close> from 0 to 99, decoding the packed BCD encoding of \<open>v\<close> gives
  \<open>v\<close> back: \<^verbatim>\<open>BcdToDec(DecToBcd(v)) == v\<close>.
\<close>

theorem C4_bcd_roundtrip: "unat v \<le> 99 \<Longrightarrow> BcdToDec (DecToBcd v) = v"
  by (rule bcd_roundtrip)

theorem C4_bcd_roundtrip_witness:
  "unat (59 :: 8 word) \<le> 99 \<and> DecToBcd 59 = 0x59 \<and> BcdToDec (DecToBcd 59) = 59"
  using C4_bcd_roundtrip [of 59] by (simp add: DecToBcd_def)

subsection \<open>Hour register\<close>

text \<open>
  Claim C1 says that \<^verbatim>\<open>ds1307_set_hour\<close> with hour 0 in 12-hour mode sends the byte
  0x52: 12 in BCD, bit 5 clear, bit 6 set. The code does not: in the branch for hour 0 it
  adds 12 and never calls \<^verbatim>\<open>DecToBcd\<close>, as every other branch does, so the byte sent to
  the hour register is 0x4C (binary 12 with bit 6), whatever the rest of the state is.
  The byte the claim describes is \<open>DecToBcd 12 OR push_bit 6 1\<close>, which is 0x52.
\<close>

theorem C1_set_hour_midnight_12h:
  "time_format (usr m) = DS1307_HOUR_FORMAT_12 \<Longrightarrow>
     calls (ds1307_set_hour m 0) =
       calls m @ [I2C_send DS1307_WRITE_ADR DS1307_HOUR_REG_ADR 0x4C 1] \<and>
     (0x4C :: 8 word) \<noteq> DecToBcd 12 OR push_bit 6 1 \<and>
     (DecToBcd 12 OR push_bit 6 1 :: 8 word) = 0x52"
  by (simp add: setter_calls set_hour_12_def DecToBcd_def)

theorem C1_set_hour_midnight_12h_witness:
  "time_format
     (usr (zero_machine\<lparr>usr := (usr zero_machine)\<lparr>time_format := DS1307_HOUR_FORMAT_12\<rparr>\<rparr>)) =
     DS1307_HOUR_FORMAT_12 \<and>
   calls (ds1307_set_hour
            (zero_machine\<lparr>usr := (usr zero_machine)\<lparr>time_format := DS1307_HOUR_FORMAT_12\<rparr>\<rparr>)
            0) =
     [I2C_send DS1307_WRITE_ADR DS1307_HOUR_REG_ADR 0x4C 1]"
  using C1_set_hour_midnight_12h
    [of "zero_machine\<lparr>usr := (usr zero_machine)\<lparr>time_format := DS1307_HOUR_FORMAT_12\<rparr>\<rparr>"]
  by (simp add: zero_machine_def)

text \<open>
  Claim C10. Whatever byte the transport returns for the hour register,
  \<^verbatim>\<open>ds1307_get_hour\<close> stores only enumerators: the format is \<^verbatim>\<open>DS1307_HOUR_FORMAT_24\<close> or
  \<^verbatim>\<open>DS1307_HOUR_FORMAT_12\<close>, and the period is \<^verbatim>\<open>DS1307_NONE\<close> with the former and
  \<^verbatim>\<open>DS1307_AM\<close> or \<^verbatim>\<open>DS1307_PM\<close> with the latter. The transport and its state are
  arbitrary here.
\<close>

theorem C10_get_hour_enums:
  "(time_format (usr (ds1307_get_hour m)) = DS1307_HOUR_FORMAT_24 \<and>
      time_period (usr (ds1307_get_hour m)) = DS1307_NONE) \<or>
   (time_format (usr (ds1307_get_hour m)) = DS1307_HOUR_FORMAT_12 \<and>
      (time_period (usr (ds1307_get_hour m)) = DS1307_AM \<or>
       time_period (usr (ds1307_get_hour m)) = DS1307_PM))"
  by (simp add: get_hour_usr)

subsection \<open>Oscillator control\<close>

text \<open>
  Claim C7. \<^verbatim>\<open>ds1307_set_ch\<close> makes exactly one call, a send of one byte to the seconds
  register: 0x80 to disable the clock, 0x00 to enable it. The byte does not depend on the
  state, and the context is unchanged. On the register-file transport the seconds
  register holds that byte afterwards, whatever it held before.
\<close>

theorem C7_set_ch_overwrites:
  "calls (ds1307_set_ch m DS1307_CLOCK_DISABLE) =
     calls m @ [I2C_send DS1307_WRITE_ADR DS1307_SEC_REG_ADR 0x80 1] \<and>
   calls (ds1307_set_ch m DS1307_CLOCK_ENABLE) =
     calls m @ [I2C_send DS1307_WRITE_ADR DS1307_SEC_REG_ADR 0x00 1] \<and>
   usr (ds1307_set_ch m c) = usr m \<and>
   bus (ds1307_set_ch (e\<lparr>usr := (usr e)\<lparr>ds1307_functions := echo_functions\<rparr>\<rparr>)
          DS1307_CLOCK_DISABLE) DS1307_SEC_REG_ADR = 0x80 \<and>
   bus (ds1307_set_ch (e\<lparr>usr := (usr e)\<lparr>ds1307_functions := echo_functions\<rparr>\<rparr>)
          DS1307_CLOCK_ENABLE) DS1307_SEC_REG_ADR = 0x00"
  by (simp add: setter_calls setter_usr setter_bus echo_functions_def echo_send_def
      DS1307_CLOCK_ENABLE_def DS1307_CLOCK_DISABLE_def)

subsection \<open>Year and century\<close>

text \<open>
  Claim C5. On a transport that returns the byte last written to the year register,
  \<^verbatim>\<open>ds1307_set_year(y)\<close> followed by \<^verbatim>\<open>ds1307_get_year\<close> gives \<^verbatim>\<open>year == y\<close>, and then
  \<^verbatim>\<open>century + year % 100 == year\<close> (in \<^verbatim>\<open>int\<close>, so on the unsigned values). If instead the
  year register reads 00 at the later read, \<^verbatim>\<open>ds1307_get_year\<close> gives the century that
  \<^verbatim>\<open>ds1307_set_year\<close> stored, which is \<^verbatim>\<open>y - y % 100\<close>: 2000 after a set to 2025. This
  holds for every 16-bit \<open>y\<close>, the four-digit years among them.
\<close>

theorem C5_year_roundtrip:
  assumes "echo_bound m"
  shows "year (usr (ds1307_get_year (ds1307_set_year m y))) = y \<and>
         unat (century (usr (ds1307_get_year (ds1307_set_year m y)))) +
           unat (year (usr (ds1307_get_year (ds1307_set_year m y)))) mod 100 =
           unat (year (usr (ds1307_get_year (ds1307_set_year m y)))) \<and>
         unat (century (usr (ds1307_set_year m y))) = unat y - unat y mod 100 \<and>
         year (usr (ds1307_get_year
                 ((ds1307_set_year m y)
                    \<lparr>bus := (bus (ds1307_set_year m y))(DS1307_YEAR_REG_ADR := 0x00)\<rparr>))) =
           century (usr (ds1307_set_year m y))"
proof -
  let ?m1 = "ds1307_set_year m y"
  let ?y8 = "ucast (y mod 100) :: 8 word"
  have bound: "echo_bound ?m1"
    using assms by (simp add: echo_bound_def setter_usr)
  have reg: "bus ?m1 DS1307_YEAR_REG_ADR = DecToBcd ?y8"
    using assms by (simp add: setter_bus echo_ptrs)
  have cent: "century (usr ?m1) = y - ucast ?y8"
    by (simp add: setter_usr)
  have dec: "BcdToDec (DecToBcd ?y8) = ?y8"
    by (rule bcd_roundtrip) (simp add: year8_unat)
  have yr: "year (usr (ds1307_get_year ?m1)) = y"
    by (simp add: get_year_usr echo_ptrs [OF bound] reg dec cent)
  have cent2: "century (usr (ds1307_get_year ?m1)) = y - ucast ?y8"
    by (simp add: get_year_usr cent)
  have sum: "unat (century (usr (ds1307_get_year ?m1))) +
      unat (year (usr (ds1307_get_year ?m1))) mod 100 = unat (year (usr (ds1307_get_year ?m1)))"
    unfolding yr cent2 by (rule century_plus)
  have cu: "unat (century (usr ?m1)) = unat y - unat y mod 100"
    unfolding cent year8_back by (rule century_unat)
  let ?m0 = "?m1\<lparr>bus := (bus ?m1)(DS1307_YEAR_REG_ADR := 0x00)\<rparr>"
  have zero: "BcdToDec 0x00 = 0"
    by (simp add: BcdToDec_def)
  have roll: "year (usr (ds1307_get_year ?m0)) = century (usr ?m1)"
    by (simp add: get_year_usr echo_ptrs [OF bound] zero)
  from yr sum cu roll show ?thesis
    by simp
qed

theorem C5_year_roundtrip_witness:
  "echo_bound zero_machine \<and>
   year (usr (ds1307_get_year (ds1307_set_year zero_machine 2025))) = 2025 \<and>
   century (usr (ds1307_set_year zero_machine 2025)) = 2000 \<and>
   year (usr (ds1307_get_year
           ((ds1307_set_year zero_machine 2025)
              \<lparr>bus := (bus (ds1307_set_year zero_machine 2025))(DS1307_YEAR_REG_ADR := 0x00)\<rparr>))) =
     2000"
proof -
  have b: "echo_bound zero_machine"
    by (simp add: echo_bound_def zero_machine_def)
  have c: "century (usr (ds1307_set_year zero_machine 2025)) = 2000"
    by (simp add: setter_usr zero_machine_def)
  from C5_year_roundtrip [OF b, of 2025] b c show ?thesis
    by simp
qed

subsection \<open>Changing the hour format\<close>

text \<open>
  Claim C6. When the format asked for is the one bit 6 of the hour register encodes,
  \<^verbatim>\<open>ds1307_set_time_format\<close> makes exactly one call, the read of the hour register, and
  no send; the state behind the transport is what that read left; and the context
  changes only in \<^verbatim>\<open>hour\<close>, \<^verbatim>\<open>time_format\<close> and \<^verbatim>\<open>time_period\<close>, which the read
  sets.
\<close>

theorem C6_set_time_format_same:
  assumes "format =
    (if bit (hour_byte m) 6 then DS1307_HOUR_FORMAT_12 else DS1307_HOUR_FORMAT_24)"
  shows "calls (ds1307_set_time_format m format) =
           calls m @ [I2C_read DS1307_READ_ADR DS1307_HOUR_REG_ADR 1] \<and>
         bus (ds1307_set_time_format m format) =
           snd (ds1307_i2c_read_ptr (ds1307_functions (usr m))
                  DS1307_READ_ADR DS1307_HOUR_REG_ADR 0 1 (bus m)) \<and>
         usr (ds1307_set_time_format m format) =
           (usr m)\<lparr>hour := hour (usr (ds1307_get_hour m)),
                   time_format := format,
                   time_period := time_period (usr (ds1307_get_hour m))\<rparr>"
proof -
  have "time_format (usr (ds1307_get_hour m)) = format"
    by (simp add: get_hour_usr assms)
  then have same: "ds1307_set_time_format m format = ds1307_get_hour m"
    by (rule stf_same)
  show ?thesis
    unfolding same by (simp add: get_hour_calls get_hour_bus get_hour_usr assms)
qed

theorem C6_set_time_format_same_witness:
  "DS1307_HOUR_FORMAT_24 =
     (if bit (hour_byte (chip_hour 0x13)) 6 then DS1307_HOUR_FORMAT_12
      else DS1307_HOUR_FORMAT_24) \<and>
   calls (ds1307_set_time_format (chip_hour 0x13) DS1307_HOUR_FORMAT_24) =
     [I2C_read DS1307_READ_ADR DS1307_HOUR_REG_ADR 1]"
proof -
  have h: "DS1307_HOUR_FORMAT_24 =
     (if bit (hour_byte (chip_hour 0x13)) 6 then DS1307_HOUR_FORMAT_12
      else DS1307_HOUR_FORMAT_24)"
    by (simp add: chip_hour_simps)
  from C6_set_time_format_same [OF h] h show ?thesis
    by (simp add: chip_hour_simps)
qed

text \<open>
  Claim C9. When \<^verbatim>\<open>ds1307_set_time_format\<close> changes the format (the format read from the
  hour register differs from the one asked for) and \<^verbatim>\<open>second\<close> of the context is at most
  59, the operation makes nine calls: the second one is the send of 0x80 to the seconds
  register, which halts the clock, and the last one is the send of \<^verbatim>\<open>DecToBcd(second)\<close>
  to the seconds register by \<^verbatim>\<open>ds1307_set_second\<close>, a byte with bit 7 clear. On the
  register-file transport the seconds register therefore ends with bit 7 clear.
\<close>

theorem C9_format_change_restarts_clock:
  assumes "time_format (usr (ds1307_get_hour m)) \<noteq> format"
    and "unat (second (usr m)) \<le> 59"
  shows "last (calls (ds1307_set_time_format m format)) =
           I2C_send DS1307_WRITE_ADR DS1307_SEC_REG_ADR (DecToBcd (second (usr m))) 1 \<and>
         \<not> bit (DecToBcd (second (usr m))) 7 \<and>
         calls (ds1307_set_time_format m format) ! (length (calls m) + 1) =
           I2C_send DS1307_WRITE_ADR DS1307_SEC_REG_ADR 0x80 1 \<and>
         length (calls (ds1307_set_time_format m format)) = length (calls m) + 9 \<and>
         (echo_bound e \<and> time_format (usr (ds1307_get_hour e)) \<noteq> fe \<and>
          unat (second (usr e)) \<le> 59 \<longrightarrow>
            \<not> bit (bus (ds1307_set_time_format e fe) DS1307_SEC_REG_ADR) 7)"
proof -
  have "\<not> bit (DecToBcd (second (usr m))) 7"
    using assms(2) by (rule bcd_seconds_bit7)
  then have trace: "last (calls (ds1307_set_time_format m format)) =
           I2C_send DS1307_WRITE_ADR DS1307_SEC_REG_ADR (DecToBcd (second (usr m))) 1 \<and>
         \<not> bit (DecToBcd (second (usr m))) 7 \<and>
         calls (ds1307_set_time_format m format) ! (length (calls m) + 1) =
           I2C_send DS1307_WRITE_ADR DS1307_SEC_REG_ADR 0x80 1 \<and>
         length (calls (ds1307_set_time_format m format)) = length (calls m) + 9"
    unfolding stf_calls [OF assms(1)] by (simp add: nth_append)
  have chip: "\<not> bit (bus (ds1307_set_time_format e fe) DS1307_SEC_REG_ADR) 7"
    if "echo_bound e" and "time_format (usr (ds1307_get_hour e)) \<noteq> fe"
      and "unat (second (usr e)) \<le> 59"
    unfolding stf_echo_regs(2) [OF that(1) that(2)] using that(3) by (rule bcd_seconds_bit7)
  from trace chip show ?thesis
    by blast
qed

theorem C9_format_change_restarts_clock_witness:
  "time_format (usr (ds1307_get_hour (chip_hour 0x13))) \<noteq> DS1307_HOUR_FORMAT_12 \<and>
   unat (second (usr (chip_hour 0x13))) \<le> 59 \<and>
   last (calls (ds1307_set_time_format (chip_hour 0x13) DS1307_HOUR_FORMAT_12)) =
     I2C_send DS1307_WRITE_ADR DS1307_SEC_REG_ADR 0x00 1 \<and>
   echo_bound (chip_hour 0x13) \<and>
   \<not> bit (bus (ds1307_set_time_format (chip_hour 0x13) DS1307_HOUR_FORMAT_12)
            DS1307_SEC_REG_ADR) 7"
proof -
  have a: "time_format (usr (ds1307_get_hour (chip_hour 0x13))) \<noteq> DS1307_HOUR_FORMAT_12"
    by (simp add: get_hour_usr chip_hour_simps ds1307_enum_defs)
  have b: "unat (second (usr (chip_hour 0x13))) \<le> 59"
    by (simp add: chip_hour_simps)
  from C9_format_change_restarts_clock
    [OF a b, of "chip_hour 0x13" DS1307_HOUR_FORMAT_12] a b
  show ?thesis
    by (simp add: chip_hour_simps DecToBcd_def)
qed

text \<open>
  Claim C8 says that after \<^verbatim>\<open>ds1307_set_year\<close> the field \<^verbatim>\<open>century\<close> is a multiple of
  100, that no other operation writes \<^verbatim>\<open>century\<close>, and that the property therefore
  survives every later operation. The middle part fails: \<^verbatim>\<open>ds1307_set_time_format\<close>
  calls \<^verbatim>\<open>ds1307_set_year(usr->year)\<close> when it changes the format, and that assigns
  \<^verbatim>\<open>century\<close> again. From the all-zero context and chip, \<^verbatim>\<open>ds1307_set_year(2025)\<close>
  leaves \<^verbatim>\<open>century == 2000\<close>, and a following switch to the 12-hour format leaves
  \<^verbatim>\<open>century == 0\<close>, since \<^verbatim>\<open>year\<close> of the context is still 0.
\<close>

theorem C8_set_time_format_writes_century:
  "century (usr (call_ops [Set_year 2025] zero_machine)) = 2000 \<and>
   century (usr (call_ops [Set_year 2025, Set_time_format DS1307_HOUR_FORMAT_12]
                   zero_machine)) = 0"
proof -
  let ?m1 = "ds1307_set_year zero_machine 2025"
  have c1: "century (usr ?m1) = 2000"
    by (simp add: setter_usr zero_machine_def)
  have y1: "year (usr ?m1) = 0"
    by (simp add: setter_usr zero_machine_def)
  have b1: "echo_bound ?m1"
    by (simp add: echo_bound_def setter_usr zero_machine_def)
  have "bus ?m1 DS1307_HOUR_REG_ADR = 0"
    by (simp add: setter_bus zero_machine_def echo_functions_def echo_send_def
        ds1307_enum_defs)
  then have "hour_byte ?m1 = 0"
    by (simp add: echo_hour_byte [OF b1])
  then have "time_format (usr (ds1307_get_hour ?m1)) \<noteq> DS1307_HOUR_FORMAT_12"
    by (simp add: get_hour_usr ds1307_enum_defs)
  then have "century (usr (ds1307_set_time_format ?m1 DS1307_HOUR_FORMAT_12)) = 0"
    by (simp add: stf_century y1)
  with c1 show ?thesis
    by simp
qed

text \<open>
  Claim C8, amended. After any call of \<^verbatim>\<open>ds1307_set_year\<close> and any further driver calls,
  \<^verbatim>\<open>century\<close> is a multiple of 100. The operations that write \<^verbatim>\<open>century\<close> are
  \<^verbatim>\<open>ds1307_set_year\<close> and \<^verbatim>\<open>ds1307_set_time_format\<close>: the latter leaves it alone when
  the format does not change and stores \<^verbatim>\<open>year - year % 100\<close> of the context's year
  when it does; every other operation leaves \<^verbatim>\<open>century\<close> as it is.
\<close>

theorem C8_century_multiple_of_100:
  "unat (century (usr (call_ops xs (ds1307_set_year m y)))) mod 100 = 0 \<and>
   ((\<forall>y'. x \<noteq> Set_year y') \<and> (\<forall>f. x \<noteq> Set_time_format f) \<longrightarrow>
      century (usr (call_op x m)) = century (usr m)) \<and>
   century (usr (ds1307_set_time_format m f)) =
     (if time_format (usr (ds1307_get_hour m)) = f then century (usr m)
      else year (usr m) - ucast (ucast (year (usr m) mod 100) :: 8 word)) \<and>
   unat (year (usr m) - ucast (ucast (year (usr m) mod 100) :: 8 word)) mod 100 = 0"
proof -
  have "unat (century (usr (ds1307_set_year m y))) mod 100 = 0"
    by (simp add: setter_usr century_multiple)
  then have "unat (century (usr (call_ops xs (ds1307_set_year m y)))) mod 100 = 0"
    by (rule call_ops_century_multiple)
  then show ?thesis
    by (simp add: call_op_century_frame stf_century century_multiple)
qed

theorem C8_century_multiple_of_100_witness:
  "unat (century (usr (call_ops [Get_year, Set_time_format DS1307_HOUR_FORMAT_12, Get_hour]
                         (ds1307_set_year zero_machine 2025)))) mod 100 = 0 \<and>
   (\<forall>y'. Get_year \<noteq> Set_year y') \<and> (\<forall>f. Get_year \<noteq> Set_time_format f) \<and>
   century (usr (call_op Get_year (ds1307_set_year zero_machine 2025))) = 2000"
proof -
  have c: "century (usr (ds1307_set_year zero_machine 2025)) = 2000"
    by (simp add: setter_usr zero_machine_def)
  from C8_century_multiple_of_100
    [of "[Get_year, Set_time_format DS1307_HOUR_FORMAT_12, Get_hour]" zero_machine 2025
      Get_year]
    C8_century_multiple_of_100 [of "[]" "ds1307_set_year zero_machine 2025" 0 Get_year] c
  show ?thesis
    by simp
qed

text \<open>
  Claim C3. Let the context be bound to the register-file transport and the hour
  register hold an hour \<open>h\<close> from 0 to 23 in 24-hour encoding. After
  \<^verbatim>\<open>ds1307_set_time_format(DS1307_HOUR_FORMAT_12)\<close> the register holds \<open>h\<close> in 12-hour
  encoding: \<^verbatim>\<open>ds1307_get_hour\<close> reads the 12-hour format, AM below 12 and PM from 12 on,
  and the hour 12 for 0, \<open>h - 12\<close> above 12 and \<open>h\<close> otherwise. After
  \<^verbatim>\<open>ds1307_set_time_format(DS1307_HOUR_FORMAT_24)\<close> on top of that, the register holds
  the 24-hour encoding of \<open>h\<close> again and the context holds \<open>h\<close> in the 24-hour format.
  At \<open>h = 13\<close> the 12-hour register is 0x61, 1 PM, and the way back gives 13.
\<close>

theorem C3_format_roundtrip:
  assumes "echo_bound m" and "unat h \<le> 23"
    and "bus m DS1307_HOUR_REG_ADR = DecToBcd h"
  shows "time_format (usr (call_ops [Set_time_format DS1307_HOUR_FORMAT_12, Get_hour] m)) =
           DS1307_HOUR_FORMAT_12 \<and>
         time_period (usr (call_ops [Set_time_format DS1307_HOUR_FORMAT_12, Get_hour] m)) =
           (if h < 12 then DS1307_AM else DS1307_PM) \<and>
         hour (usr (call_ops [Set_time_format DS1307_HOUR_FORMAT_12, Get_hour] m)) =
           (if h = 0 then 12 else if 12 < h then h - 12 else h) \<and>
         bus (call_ops [Set_time_format DS1307_HOUR_FORMAT_12,
                        Set_time_format DS1307_HOUR_FORMAT_24] m) DS1307_HOUR_REG_ADR =
           DecToBcd h \<and>
         hour (usr (call_ops [Set_time_format DS1307_HOUR_FORMAT_12,
                              Set_time_format DS1307_HOUR_FORMAT_24] m)) = h \<and>
         time_format (usr (call_ops [Set_time_format DS1307_HOUR_FORMAT_12,
                                     Set_time_format DS1307_HOUR_FORMAT_24] m)) =
           DS1307_HOUR_FORMAT_24"
proof -
  let ?m1 = "ds1307_set_time_format m DS1307_HOUR_FORMAT_12"
  let ?m2 = "ds1307_set_time_format ?m1 DS1307_HOUR_FORMAT_24"
  let ?b = "set_hour_12 h OR push_bit 6 1"
  let ?h12 = "if h = 0 then 12 else if 12 < h then h - 12 else h"
  note r24 = hour24_register [OF assms(2)]
  note r12 = hour12_register [OF assms(2)]
  have in24: "\<not> bit (bus m DS1307_HOUR_REG_ADR) 6"
    using r24 by (simp add: assms(3))
  have reg1: "bus ?m1 DS1307_HOUR_REG_ADR = ?b"
    using r24 by (simp add: stf_echo_to_12(4) [OF assms(1) in24] assms(3))
  have bound1: "echo_bound ?m1"
    using assms(1) by (simp add: echo_bound_stf)
  have byte1: "hour_byte ?m1 = ?b"
    by (simp add: echo_hour_byte [OF bound1] reg1)
  have fmt1: "time_format (usr (ds1307_get_hour ?m1)) = DS1307_HOUR_FORMAT_12"
    using r12 by (simp add: get_hour_usr byte1)
  have per1: "time_period (usr (ds1307_get_hour ?m1)) =
      (if h < 12 then DS1307_AM else DS1307_PM)"
    using r12 by (auto simp add: get_hour_usr byte1 not_less dest: leD)
  have hour1: "hour (usr (ds1307_get_hour ?m1)) = ?h12"
    using r12 by (simp add: get_hour_usr byte1)
  have in12: "bit (bus ?m1 DS1307_HOUR_REG_ADR) 6"
    using r12 by (simp add: reg1)
  have conv: "(if bit (bus ?m1 DS1307_HOUR_REG_ADR) 5
       then (if BcdToDec ((bus ?m1 DS1307_HOUR_REG_ADR AND NOT (push_bit 6 1))
                  AND NOT (push_bit 5 1)) \<noteq> 12
             then BcdToDec ((bus ?m1 DS1307_HOUR_REG_ADR AND NOT (push_bit 6 1))
                    AND NOT (push_bit 5 1)) + 12
             else BcdToDec ((bus ?m1 DS1307_HOUR_REG_ADR AND NOT (push_bit 6 1))
                    AND NOT (push_bit 5 1)))
       else (if BcdToDec ((bus ?m1 DS1307_HOUR_REG_ADR AND NOT (push_bit 6 1))
                  AND NOT (push_bit 5 1)) = 12
             then 0
             else BcdToDec ((bus ?m1 DS1307_HOUR_REG_ADR AND NOT (push_bit 6 1))
                    AND NOT (push_bit 5 1)))) = h"
    unfolding reg1 r12 [THEN conjunct2, THEN conjunct1] r12 [THEN conjunct2, THEN conjunct2]
    by (rule hour12_back [OF assms(2)])
  have reg2: "bus ?m2 DS1307_HOUR_REG_ADR = DecToBcd h"
    unfolding stf_echo_to_24(4) [OF bound1 in12] conv by (rule refl)
  have hour2: "hour (usr ?m2) = h"
    unfolding stf_echo_to_24(3) [OF bound1 in12] conv by (rule refl)
  have fmt2: "time_format (usr ?m2) = DS1307_HOUR_FORMAT_24"
    by (rule stf_echo_to_24(1) [OF bound1 in12])
  from fmt1 per1 hour1 reg2 hour2 fmt2 show ?thesis
    by simp
qed

theorem C3_format_roundtrip_witness:
  "echo_bound (chip_hour 0x13) \<and> unat (13 :: 8 word) \<le> 23 \<and>
   bus (chip_hour 0x13) DS1307_HOUR_REG_ADR = DecToBcd 13 \<and>
   hour (usr (call_ops [Set_time_format DS1307_HOUR_FORMAT_12, Get_hour]
                (chip_hour 0x13))) = 1 \<and>
   time_period (usr (call_ops [Set_time_format DS1307_HOUR_FORMAT_12, Get_hour]
                       (chip_hour 0x13))) = DS1307_PM \<and>
   hour (usr (call_ops [Set_time_format DS1307_HOUR_FORMAT_12,
                        Set_time_format DS1307_HOUR_FORMAT_24] (chip_hour 0x13))) = 13 \<and>
   bus (call_ops [Set_time_format DS1307_HOUR_FORMAT_12,
                  Set_time_format DS1307_HOUR_FORMAT_24] (chip_hour 0x13))
     DS1307_HOUR_REG_ADR = 0x13"
proof -
  have a: "echo_bound (chip_hour 0x13)"
    by (simp add: chip_hour_simps)
  have b: "unat (13 :: 8 word) \<le> 23"
    by simp
  have d: "DecToBcd 13 = 0x13"
    by (simp add: DecToBcd_def)
  have c: "bus (chip_hour 0x13) DS1307_HOUR_REG_ADR = DecToBcd 13"
    by (simp add: chip_hour_simps d)
  from C3_format_roundtrip [OF a b c] a b c d show ?thesis
    by simp
qed

subsection \<open>The documented ranges of the context\<close>

text \<open>
  Claim C2 says that after every driver operation the context satisfies: in the 24-hour
  format \<^verbatim>\<open>time_period\<close> is \<^verbatim>\<open>DS1307_NONE\<close>; in the 12-hour format \<^verbatim>\<open>hour\<close> is from 1 to
  12 and \<^verbatim>\<open>time_period\<close> is \<^verbatim>\<open>DS1307_AM\<close> or \<^verbatim>\<open>DS1307_PM\<close>; and that
  \<^verbatim>\<open>ds1307_set_time_format\<close> keeps this on both switches. The header documents the same
  ranges for the two fields, but \<^verbatim>\<open>ds1307_set_time_format\<close> does not keep them. On a
  chip at 13:00 in 24-hour encoding (hour register 0x13), \<^verbatim>\<open>ds1307_get_hour\<close> leaves a
  context within the ranges. The switch to the 12-hour format then sets only
  \<^verbatim>\<open>time_format\<close>: the context has the 12-hour format with \<^verbatim>\<open>hour == 13\<close> and
  \<^verbatim>\<open>time_period == DS1307_NONE\<close>. The switch back to the 24-hour format converts
  \<^verbatim>\<open>hour\<close> and leaves \<^verbatim>\<open>time_period == DS1307_PM\<close> in the 24-hour format.
\<close>

theorem C2_set_time_format_breaks_ranges:
  "context_inv (usr (call_ops [Get_hour] (chip_hour 0x13))) \<and>
   \<not> context_inv
       (usr (call_ops [Get_hour, Set_time_format DS1307_HOUR_FORMAT_12] (chip_hour 0x13))) \<and>
   time_format
       (usr (call_ops [Get_hour, Set_time_format DS1307_HOUR_FORMAT_12] (chip_hour 0x13))) =
     DS1307_HOUR_FORMAT_12 \<and>
   hour (usr (call_ops [Get_hour, Set_time_format DS1307_HOUR_FORMAT_12] (chip_hour 0x13))) =
     13 \<and>
   time_period
       (usr (call_ops [Get_hour, Set_time_format DS1307_HOUR_FORMAT_12] (chip_hour 0x13))) =
     DS1307_NONE \<and>
   \<not> context_inv
       (usr (call_ops [Get_hour, Set_time_format DS1307_HOUR_FORMAT_12,
                       Set_time_format DS1307_HOUR_FORMAT_24] (chip_hour 0x13))) \<and>
   time_format
       (usr (call_ops [Get_hour, Set_time_format DS1307_HOUR_FORMAT_12,
                       Set_time_format DS1307_HOUR_FORMAT_24] (chip_hour 0x13))) =
     DS1307_HOUR_FORMAT_24 \<and>
   time_period
       (usr (call_ops [Get_hour, Set_time_format DS1307_HOUR_FORMAT_12,
                       Set_time_format DS1307_HOUR_FORMAT_24] (chip_hour 0x13))) =
     DS1307_PM"
proof -
  let ?g = "ds1307_get_hour (chip_hour 0x13)"
  let ?B = "ds1307_set_time_format ?g DS1307_HOUR_FORMAT_12"
  let ?C = "ds1307_set_time_format ?B DS1307_HOUR_FORMAT_24"
  have inv_g: "context_inv (usr ?g)"
    by (simp add: context_inv_def get_hour_usr chip_hour_simps)
  have bound_g: "echo_bound ?g"
    by (simp add: echo_bound_get_hour chip_hour_simps)
  have reg_g: "bus ?g DS1307_HOUR_REG_ADR = 0x13"
    by (simp add: echo_get_hour_bus chip_hour_simps)
  have in24: "\<not> bit (bus ?g DS1307_HOUR_REG_ADR) 6"
    by (simp add: reg_g)
  have dec: "BcdToDec (0x13 AND NOT (push_bit 6 1)) = 13"
    by (simp add: BcdToDec_def)
  have enc: "set_hour_12 13 OR push_bit 6 1 = 0x61"
    by (simp add: set_hour_12_def DecToBcd_def)
  have fmt_B: "time_format (usr ?B) = DS1307_HOUR_FORMAT_12"
    by (rule stf_echo_to_12(1) [OF bound_g in24])
  have per_B: "time_period (usr ?B) = DS1307_NONE"
    by (rule stf_echo_to_12(2) [OF bound_g in24])
  have hour_B: "hour (usr ?B) = 13"
    unfolding stf_echo_to_12(3) [OF bound_g in24] reg_g by (rule dec)
  have reg_B: "bus ?B DS1307_HOUR_REG_ADR = 0x61"
    unfolding stf_echo_to_12(4) [OF bound_g in24] reg_g dec by (rule enc)
  have inv_B: "\<not> context_inv (usr ?B)"
    unfolding context_inv_def fmt_B per_B hour_B by (simp add: ds1307_enum_defs)
  have bound_B: "echo_bound ?B"
    using bound_g by (simp add: echo_bound_stf)
  have in12: "bit (bus ?B DS1307_HOUR_REG_ADR) 6"
    by (simp add: reg_B)
  have fmt_C: "time_format (usr ?C) = DS1307_HOUR_FORMAT_24"
    by (rule stf_echo_to_24(1) [OF bound_B in12])
  have per_C: "time_period (usr ?C) = DS1307_PM"
    unfolding stf_echo_to_24(2) [OF bound_B in12] reg_B by simp
  have inv_C: "\<not> context_inv (usr ?C)"
    unfolding context_inv_def fmt_C per_C by (simp add: ds1307_enum_defs)
  from inv_g inv_B fmt_B hour_B per_B inv_C fmt_C per_C show ?thesis
    by simp
qed

end
